theory Spec2Isabelle
  imports Complex_Main
begin

section \<open>Python values\<close>

text \<open>
  Values produced by \<^verbatim>\<open>response.json()\<close>. A dict is an association list in insertion
  order with distinct keys; a float is represented by the rational it denotes (only its
  truth value is ever inspected). Strings are lists of characters read as code points
  below 256.
\<close>

datatype json =
    JNull
  | JBool bool
  | JInt int
  | JFloat rat
  | JStr string
  | JList "json list"
  | JObj "(string \<times> json) list"

text \<open>Python truthiness, as used by \<^verbatim>\<open>if not token\<close>.\<close>

fun truthy :: "json \<Rightarrow> bool" where
  "truthy JNull = False"
| "truthy (JBool b) = b"
| "truthy (JInt i) = (i \<noteq> 0)"
| "truthy (JFloat q) = (q \<noteq> 0)"
| "truthy (JStr s) = (s \<noteq> [])"
| "truthy (JList xs) = (xs \<noteq> [])"
| "truthy (JObj kvs) = (kvs \<noteq> [])"

text \<open>\<^verbatim>\<open>d[k] = v\<close> on a dict: replace in place, or append a new key.\<close>

primrec dict_set :: "string \<Rightarrow> json \<Rightarrow> (string \<times> json) list \<Rightarrow> (string \<times> json) list" where
  "dict_set k v [] = [(k, v)]"
| "dict_set k v (p # ps) = (if fst p = k then (k, v) # ps else p # dict_set k v ps)"

text \<open>\<^verbatim>\<open>d.get(k)\<close>: the value, or \<^verbatim>\<open>None\<close> for a missing key.\<close>

definition dict_get :: "(string \<times> json) list \<Rightarrow> string \<Rightarrow> json" where
  "dict_get kvs k = (case map_of kvs k of None \<Rightarrow> JNull | Some v \<Rightarrow> v)"

subsection \<open>Strings\<close>

definition digit :: "nat \<Rightarrow> char" where
  "digit d = ''0123456789'' ! d"

function str_nat :: "nat \<Rightarrow> string" where
  "str_nat n = (if n < 10 then [digit n] else str_nat (n div 10) @ [digit (n mod 10)])"
  by pat_completeness auto
termination
  by (relation "measure id") auto

declare str_nat.simps [simp del]

text \<open>\<^verbatim>\<open>str(i)\<close> for a Python int.\<close>

definition str_int :: "int \<Rightarrow> string" where
  "str_int i = (if i < 0 then CHR ''-'' # str_nat (nat (- i)) else str_nat (nat i))"

text \<open>\<^verbatim>\<open>s.rstrip(chars)\<close> and \<^verbatim>\<open>s.startswith(p)\<close>.\<close>

definition rstrip :: "string \<Rightarrow> string \<Rightarrow> string" where
  "rstrip chars s = rev (dropWhile (\<lambda>c. c \<in> set chars) (rev s))"

definition startswith :: "string \<Rightarrow> string \<Rightarrow> bool" where
  "startswith s p = (take (length p) s = p)"

text \<open>
  \<^verbatim>\<open>s.strip()\<close> removes leading and trailing whitespace; below code point 256 the
  whitespace characters are 9 to 13, 28 to 32, 133 and 160.
\<close>

definition whitespace :: "string" where
  "whitespace = [CHR 0x09, CHR 0x0A, CHR 0x0B, CHR 0x0C, CHR 0x0D, CHR 0x1C, CHR 0x1D,
                 CHR 0x1E, CHR 0x1F, CHR 0x20, CHR 0x85, CHR 0xA0]"

definition strip :: "string \<Rightarrow> string" where
  "strip s = rstrip whitespace (dropWhile (\<lambda>c. c \<in> set whitespace) s)"

text \<open>
  A string can be encoded as ASCII when every code point is below 128;
  \<^verbatim>\<open>value.encode("ascii")\<close> raises \<^verbatim>\<open>UnicodeEncodeError\<close> otherwise.
\<close>

definition is_ascii :: "string \<Rightarrow> bool" where
  "is_ascii s = list_all (\<lambda>c. (of_char c :: nat) < 128) s"

text \<open>\<^verbatim>\<open>type(v).__name__\<close> of a decoded JSON value.\<close>

fun type_name :: "json \<Rightarrow> string" where
  "type_name JNull = ''NoneType''"
| "type_name (JBool b) = ''bool''"
| "type_name (JInt i) = ''int''"
| "type_name (JFloat q) = ''float''"
| "type_name (JStr s) = ''str''"
| "type_name (JList xs) = ''list''"
| "type_name (JObj kvs) = ''dict''"

section \<open>The HTTP library at its interface\<close>

text \<open>
  An \<^verbatim>\<open>httpx.Response\<close>: its status, its body text, the outcome of \<^verbatim>\<open>.json()\<close>
  (the decoder's message when the body is not JSON) and the message httpx gives the
  \<^verbatim>\<open>HTTPStatusError\<close> it builds for this response.
\<close>

record response =
  status_code :: int
  resp_text :: string
  resp_json :: "string + json"
  status_message :: string

text \<open>
  The exceptions that occur, each with its message. \<^verbatim>\<open>HTTPStatusError\<close> is a subclass
  of \<^verbatim>\<open>HTTPError\<close>; the constructor \<open>HTTPError\<close> stands for every other instance of
  that class (transport errors and the like). \<^verbatim>\<open>InvalidURL\<close> and \<^verbatim>\<open>UnicodeEncodeError\<close>
  are not instances of \<^verbatim>\<open>HTTPError\<close>. All of them are instances of \<^verbatim>\<open>Exception\<close>.
\<close>

datatype exn =
    HTTPStatusError string response
  | HTTPError string
  | InvalidURL string
  | UnicodeEncodeError string
  | JSONDecodeError string
  | AttributeError string
  | RuntimeError string
  | OtherException string

text \<open>\<^verbatim>\<open>str(e)\<close>.\<close>

fun str_exn :: "exn \<Rightarrow> string" where
  "str_exn (HTTPStatusError m r) = m"
| "str_exn (HTTPError m) = m"
| "str_exn (InvalidURL m) = m"
| "str_exn (UnicodeEncodeError m) = m"
| "str_exn (JSONDecodeError m) = m"
| "str_exn (AttributeError m) = m"
| "str_exn (RuntimeError m) = m"
| "str_exn (OtherException m) = m"

text \<open>
  \<^verbatim>\<open>raise_for_status\<close> as httpx documents it: it raises for every status that is not a
  success, and a success is a status from 200 to 299.
\<close>

definition is_success :: "response \<Rightarrow> bool" where
  "is_success r = (200 \<le> status_code r \<and> status_code r \<le> 299)"

definition raise_for_status :: "response \<Rightarrow> exn + response" where
  "raise_for_status r =
     (if is_success r then Inr r else Inl (HTTPStatusError (status_message r) r))"

definition response_json :: "response \<Rightarrow> exn + json" where
  "response_json r = (case resp_json r of Inl m \<Rightarrow> Inl (JSONDecodeError m) | Inr j \<Rightarrow> Inr j)"

text \<open>
  An \<^verbatim>\<open>httpx.AsyncClient\<close> object. Objects live in a store, a list indexed by
  address; a reference is an address, so that object identity is equality of addresses.
\<close>

record async_client =
  client_base_url :: string
  verify :: bool
  client_timeout :: rat
  headers :: "(string \<times> string) list"
  is_closed :: bool

type_synonym store = "async_client list"

datatype request = GET string | POST string json

text \<open>
  What the program cannot decide itself: how the upstream server answers a request
  sent through a given client (a response, or an exception raised by the request);
  what \<^verbatim>\<open>str()\<close> gives for an object that is not a string; whether httpx accepts a
  base URL (\<open>None\<close>) or rejects it (the message of its \<^verbatim>\<open>InvalidURL\<close>); and the message
  of the \<^verbatim>\<open>UnicodeEncodeError\<close> for a string that is not ASCII.
\<close>

record runtime =
  upstream :: "async_client \<Rightarrow> request \<Rightarrow> exn + response"
  str_other :: "json \<Rightarrow> string"
  check_url :: "string \<Rightarrow> string option"
  encode_error :: "string \<Rightarrow> string"

text \<open>
  httpx encodes the name and the value of every header as ASCII, in the order of the
  dict: the first string that cannot be encoded, if there is one.
\<close>

fun non_ascii_header :: "(string \<times> string) list \<Rightarrow> string option" where
  "non_ascii_header [] = None"
| "non_ascii_header ((k, v) # hs) =
     (if \<not> is_ascii k then Some k
      else if \<not> is_ascii v then Some v
      else non_ascii_header hs)"

text \<open>
  The constructor parses the base URL, then encodes the headers; either step may
  raise, and then no object is constructed. Otherwise the object is allocated at the
  next address. \<^verbatim>\<open>aclose\<close> marks the object closed and does not raise. A client
  object is truthy, so \<^verbatim>\<open>if self._client\<close> tests the reference against \<^verbatim>\<open>None\<close>.
\<close>

definition AsyncClient ::
  "runtime \<Rightarrow> string \<Rightarrow> bool \<Rightarrow> rat \<Rightarrow> (string \<times> string) list \<Rightarrow> store \<Rightarrow>
     exn + nat \<times> store" where
  "AsyncClient env b v t hs h =
     (case check_url env b of
        Some m \<Rightarrow> Inl (InvalidURL m)
      | None \<Rightarrow>
          (case non_ascii_header hs of
             Some s \<Rightarrow> Inl (UnicodeEncodeError (encode_error env s))
           | None \<Rightarrow>
               Inr (length h,
                    h @ [\<lparr>client_base_url = b, verify = v, client_timeout = t, headers = hs,
                           is_closed = False\<rparr>])))"

definition aclose :: "nat \<Rightarrow> store \<Rightarrow> store" where
  "aclose c h = (if c < length h then h[c := (h ! c)\<lparr>is_closed := True\<rparr>] else h)"

definition client_get :: "runtime \<Rightarrow> store \<Rightarrow> nat \<Rightarrow> string \<Rightarrow> exn + response" where
  "client_get env h c path = upstream env (h ! c) (GET path)"

definition client_post :: "runtime \<Rightarrow> store \<Rightarrow> nat \<Rightarrow> string \<Rightarrow> json \<Rightarrow> exn + response" where
  "client_post env h c path body = upstream env (h ! c) (POST path body)"

text \<open>The value an f-string interpolates.\<close>

definition format_value :: "runtime \<Rightarrow> json \<Rightarrow> string" where
  "format_value env v = (case v of JStr s \<Rightarrow> s | _ \<Rightarrow> str_other env v)"

definition USER_AGENT :: string where
  "USER_AGENT = ''cs-mcp/1.0''"

section \<open>cs_client.py: CobaltStrikeClient\<close>

record cobalt_strike_client =
  base_url :: string
  verify_tls :: bool
  timeout :: rat
  token :: json
  client :: "nat option"

type_synonym state = "cobalt_strike_client \<times> store"

definition init :: "string \<Rightarrow> bool \<Rightarrow> rat \<Rightarrow> cobalt_strike_client" where
  "init b v t =
     \<lparr>base_url = rstrip ''/'' b, verify_tls = v, timeout = t, token = JNull, client = None\<rparr>"

definition login_payload :: "string \<Rightarrow> string \<Rightarrow> int \<Rightarrow> json" where
  "login_payload username password duration_ms =
     JObj [(''username'', JStr username), (''password'', JStr password),
           (''duration_ms'', JInt duration_ms)]"

definition login_headers :: "(string \<times> string) list" where
  "login_headers = [(''User-Agent'', USER_AGENT), (''Accept'', ''application/json'')]"

text \<open>The \<^verbatim>\<open>try\<close> block of \<^verbatim>\<open>authenticate\<close>.\<close>

definition login_attempt :: "runtime \<Rightarrow> store \<Rightarrow> nat \<Rightarrow> string \<Rightarrow> json \<Rightarrow> exn + json" where
  "login_attempt env h c login_path payload =
     (case client_post env h c login_path payload of
        Inl e \<Rightarrow> Inl e
      | Inr resp \<Rightarrow>
          (case raise_for_status resp of
             Inl e \<Rightarrow> Inl e
           | Inr _ \<Rightarrow> response_json resp))"

text \<open>
  The login client is constructed before the \<^verbatim>\<open>try\<close> block, so an exception of the
  constructor propagates as it is. The \<^verbatim>\<open>except\<close> clauses turn an
  \<^verbatim>\<open>HTTPStatusError\<close> and any other \<^verbatim>\<open>HTTPError\<close> into a \<^verbatim>\<open>RuntimeError\<close>; any other
  exception propagates. The \<^verbatim>\<open>finally\<close> clause closes the login client on every path
  through the \<^verbatim>\<open>try\<close> block. \<^verbatim>\<open>data.get\<close> exists only when the decoded body is a dict.
\<close>

definition authenticate ::
  "runtime \<Rightarrow> string \<Rightarrow> string \<Rightarrow> int \<Rightarrow> string \<Rightarrow> state \<Rightarrow> (exn + json) \<times> state" where
  "authenticate env username password duration_ms login_path st =
     (case st of (self, h) \<Rightarrow>
      let payload = login_payload username password duration_ms
      in (case AsyncClient env (base_url self) (verify_tls self) (timeout self)
                 login_headers h of
            Inl e \<Rightarrow> (Inl e, self, h)
          | Inr (c, h1) \<Rightarrow>
             (let attempt = login_attempt env h1 c login_path payload;
                  h2 = aclose c h1
              in (case attempt of
                   Inl (HTTPStatusError m r) \<Rightarrow>
                     (let detail = strip (resp_text r)
                      in (Inl (RuntimeError (''Authentication failed with status ''
                                 @ str_int (status_code r) @ '': ''
                                 @ (if detail \<noteq> [] then detail else m))), self, h2))
                 | Inl (HTTPError m) \<Rightarrow>
                     (Inl (RuntimeError (''Authentication request failed: '' @ m)), self, h2)
                 | Inl e \<Rightarrow> (Inl e, self, h2)
                 | Inr data \<Rightarrow>
                     (case data of
                        JObj kvs \<Rightarrow>
                          (let tok = dict_get kvs ''access_token''
                           in if \<not> truthy tok
                              then (Inl (RuntimeError
                                      ''Authentication response did not include 'access_token'.''),
                                    self, h2)
                              else (Inr tok, self\<lparr>token := tok\<rparr>, h2))
                      | _ \<Rightarrow>
                          (Inl (AttributeError
                                 ([CHR 0x27] @ type_name data @ [CHR 0x27]
                                    @ '' object has no attribute 'get'' @ [CHR 0x27])),
                           self, h2))))))"

text \<open>
  When the constructor raises, the exception propagates and \<^verbatim>\<open>self._client\<close> stays
  \<^verbatim>\<open>None\<close>.
\<close>

definition get_authenticated_client :: "runtime \<Rightarrow> state \<Rightarrow> (exn + nat) \<times> state" where
  "get_authenticated_client env st =
     (case st of (self, h) \<Rightarrow>
      if \<not> truthy (token self)
      then (Inl (RuntimeError ''Not authenticated. Call authenticate() first.''), self, h)
      else (case client self of
              None \<Rightarrow>
                (let hs = [(''Authorization'', ''Bearer '' @ format_value env (token self)),
                           (''User-Agent'', USER_AGENT),
                           (''Accept'', ''application/json'')]
                 in (case AsyncClient env (base_url self) (verify_tls self) (timeout self)
                            hs h of
                       Inl e \<Rightarrow> (Inl e, self, h)
                     | Inr (c, h') \<Rightarrow> (Inr c, self\<lparr>client := Some c\<rparr>, h')))
            | Some c \<Rightarrow> (Inr c, self, h)))"

definition close :: "state \<Rightarrow> (exn + unit) \<times> state" where
  "close st =
     (case st of (self, h) \<Rightarrow>
      (case client self of
         Some c \<Rightarrow> (Inr (), self\<lparr>client := None\<rparr>, aclose c h)
       | None \<Rightarrow> (Inr (), self, h)))"

text \<open>
  A reference held by the session points to an object of the store, as every Python
  reference does.
\<close>

definition well_formed :: "state \<Rightarrow> bool" where
  "well_formed st = (case client (fst st) of None \<Rightarrow> True | Some c \<Rightarrow> c < length (snd st))"

section \<open>cs_resources.py: the data view handlers\<close>

text \<open>
  A handler returns \<^verbatim>\<open>json.dumps(document, indent=2)\<close>; the model returns the document
  that is serialised. Every document built here consists of strings, integers, booleans
  and decoded JSON, which \<^verbatim>\<open>json.dumps\<close> accepts. A handler also returns the
  state, because \<^verbatim>\<open>get_authenticated_client\<close> may construct the shared client.
\<close>

definition exception_envelope :: "exn \<Rightarrow> string \<Rightarrow> json" where
  "exception_envelope e message =
     JObj [(''error'', JStr ''Exception occurred''),
           (''exception'', JStr (str_exn e)),
           (''message'', JStr message)]"

definition failed_envelope :: "string \<Rightarrow> int \<Rightarrow> string \<Rightarrow> json" where
  "failed_envelope err code message =
     JObj [(''error'', JStr err), (''status_code'', JInt code), (''message'', JStr message)]"

subsection \<open>server_info_resource\<close>

definition version_data :: "response \<Rightarrow> json" where
  "version_data localip_response =
     (if status_code localip_response = 200
      then JObj [(''version'', JStr ''available''), (''api_status'', JStr ''operational''),
                 (''local_ip'', JStr (resp_text localip_response))]
      else JObj [(''version'', JStr ''unknown''), (''api_status'', JStr ''limited'')])"

definition server_info :: "cobalt_strike_client \<Rightarrow> json \<Rightarrow> (string \<times> json) list" where
  "server_info cs_client vd =
     [(''cobalt_strike'',
         JObj [(''version'', vd),
               (''api_base_url'', JStr (base_url cs_client)),
               (''health_status'', JStr ''connected'')]),
      (''mcp_server'',
         JObj [(''name'', JStr ''Cobalt Strike API''),
               (''authenticated'', JBool True),
               (''transport'', JStr ''MCP''),
               (''capabilities'', JList [JStr ''tools'', JStr ''prompts'', JStr ''resources''])]),
      (''api_endpoints'',
         JObj [(''base_url'', JStr (base_url cs_client)),
               (''api_docs'', JStr (base_url cs_client @ ''/v3/api-docs'')),
               (''health_check'', JStr (base_url cs_client @ ''/api/v1/version'')),
               (''authentication'', JStr (base_url cs_client @ ''/api/auth/login''))]),
      (''resources'',
         JObj [(''beacons'', JStr ''cobalt-strike://beacons/active''),
               (''server_info'', JStr ''cobalt-strike://config/server-info''),
               (''activity_logs'', JStr ''cobalt-strike://logs/recent-activity''),
               (''listeners'', JStr ''cobalt-strike://listeners/active'')])]"

text \<open>\<^verbatim>\<open>d[k1][k2] = v\<close>, for a key \<open>k1\<close> that holds a dict.\<close>

definition dict_set_nested ::
  "string \<Rightarrow> string \<Rightarrow> json \<Rightarrow> (string \<times> json) list \<Rightarrow> (string \<times> json) list" where
  "dict_set_nested k1 k2 v d =
     (case dict_get d k1 of
        JObj inner \<Rightarrow> dict_set k1 (JObj (dict_set k2 v inner)) d
      | _ \<Rightarrow> d)"

text \<open>The \<^verbatim>\<open>try\<close> block, after the shared client \<open>c\<close> has been obtained.\<close>

definition server_info_body ::
  "runtime \<Rightarrow> cobalt_strike_client \<Rightarrow> store \<Rightarrow> nat \<Rightarrow> exn + json" where
  "server_info_body env cs_client h c =
     (case client_get env h c ''/api/v1/config/localip'' of
        Inl e \<Rightarrow> Inl e
      | Inr localip_response \<Rightarrow>
          (let info = server_info cs_client (version_data localip_response)
           in (case client_get env h c ''/api/v1/config/systeminformation'' of
                 Inl e \<Rightarrow> Inl e
               | Inr resp \<Rightarrow>
                   if status_code resp = 200
                   then Inr (JObj (dict_set_nested ''cobalt_strike'' ''system_information''
                                     (JStr (resp_text resp)) info))
                   else Inr (JObj info))))"

definition server_info_resource :: "runtime \<Rightarrow> state \<Rightarrow> json \<times> state" where
  "server_info_resource env st =
     (case get_authenticated_client env st of
        (Inl e, st') \<Rightarrow> (exception_envelope e ''Error while fetching server information'', st')
      | (Inr c, self, h) \<Rightarrow>
          (case server_info_body env self h c of
             Inl e \<Rightarrow> (exception_envelope e ''Error while fetching server information'', self, h)
           | Inr doc \<Rightarrow> (doc, self, h)))"

subsection \<open>recent_activity_resource\<close>

definition activity_summary :: "json \<Rightarrow> json" where
  "activity_summary tasks_data =
     (let recent_tasks = (case tasks_data of JList xs \<Rightarrow> JList (take 50 xs) | _ \<Rightarrow> tasks_data)
      in JObj [(''metadata'',
                  JObj [(''timestamp'', JStr ''recent''),
                        (''total_tasks_shown'',
                           JInt (case recent_tasks of JList ys \<Rightarrow> int (length ys) | _ \<Rightarrow> 1)),
                        (''total_tasks_available'',
                           JInt (case tasks_data of JList xs \<Rightarrow> int (length xs) | _ \<Rightarrow> 1)),
                        (''note'', JStr ''Limited to 50 most recent tasks for performance'')]),
               (''activities'', recent_tasks)])"

definition recent_activity_body :: "runtime \<Rightarrow> store \<Rightarrow> nat \<Rightarrow> exn + json" where
  "recent_activity_body env h c =
     (case client_get env h c ''/api/v1/tasks'' of
        Inl e \<Rightarrow> Inl e
      | Inr resp \<Rightarrow>
          if status_code resp = 200
          then (case response_json resp of
                  Inl e \<Rightarrow> Inl e
                | Inr tasks_data \<Rightarrow> Inr (activity_summary tasks_data))
          else Inr (failed_envelope ''Failed to fetch activity logs'' (status_code resp)
                      ''Unable to retrieve recent activity data''))"

definition recent_activity_resource :: "runtime \<Rightarrow> state \<Rightarrow> json \<times> state" where
  "recent_activity_resource env st =
     (case get_authenticated_client env st of
        (Inl e, st') \<Rightarrow> (exception_envelope e ''Error while fetching activity logs'', st')
      | (Inr c, self, h) \<Rightarrow>
          (case recent_activity_body env h c of
             Inl e \<Rightarrow> (exception_envelope e ''Error while fetching activity logs'', self, h)
           | Inr doc \<Rightarrow> (doc, self, h)))"

subsection \<open>dashboard_stats_resource\<close>

definition endpoints :: "(string \<times> string) list" where
  "endpoints = [(''beacons'', ''/api/v1/beacons''),
                (''listeners'', ''/api/v1/listeners''),
                (''tasks'', ''/api/v1/tasks'')]"

text \<open>The inner \<^verbatim>\<open>try\<close> block of the loop: the entry for one endpoint.\<close>

definition endpoint_try :: "exn + response \<Rightarrow> exn + json" where
  "endpoint_try outcome =
     (case outcome of
        Inl e \<Rightarrow> Inl e
      | Inr resp \<Rightarrow>
          if status_code resp = 200
          then (case response_json resp of
                  Inl e \<Rightarrow> Inl e
                | Inr data \<Rightarrow>
                    (case data of
                       JList xs \<Rightarrow>
                         Inr (JObj [(''count'', JStr (str_nat (length xs))),
                                    (''status'', JStr ''available'')])
                     | _ \<Rightarrow>
                         Inr (JObj [(''count'', JStr ''1''), (''status'', JStr ''available'')])))
          else Inr (JObj [(''count'', JStr ''0''),
                          (''status'', JStr ''unavailable''),
                          (''error_code'', JStr (str_int (status_code resp)))]))"

text \<open>The loop body with its \<^verbatim>\<open>except\<close> clause.\<close>

definition endpoint_stats :: "exn + response \<Rightarrow> json" where
  "endpoint_stats outcome =
     (case endpoint_try outcome of
        Inr entry \<Rightarrow> entry
      | Inl endpoint_error \<Rightarrow>
          JObj [(''count'', JStr ''0''),
                (''status'', JStr ''error''),
                (''error'', JStr (str_exn endpoint_error))])"

definition dashboard_stats_resource :: "runtime \<Rightarrow> state \<Rightarrow> json \<times> state" where
  "dashboard_stats_resource env st =
     (case get_authenticated_client env st of
        (Inl e, st') \<Rightarrow>
          (exception_envelope e ''Error while fetching dashboard statistics'', st')
      | (Inr c, self, h) \<Rightarrow>
          (let stats = [(''dashboard'',
                           JObj [(''timestamp'', JStr ''real-time''),
                                 (''status'', JStr ''operational'')])]
           in (JObj (fold (\<lambda>(name, endpoint) stats.
                              dict_set name (endpoint_stats (client_get env h c endpoint)) stats)
                       endpoints stats),
               self, h)))"

section \<open>cs_server.py: CobaltStrikeMCPServer.run\<close>

definition normalized_path :: "string \<Rightarrow> string" where
  "normalized_path path =
     (let p = (if startswith path ''/'' then path else ''/'' @ path);
          q = rstrip ''/'' p
      in if q \<noteq> [] then q else ''/'')"

text \<open>
  The keyword arguments of a call of \<^verbatim>\<open>run_async\<close>; \<open>None\<close> for an argument the
  call does not pass.
\<close>

record run_async_args =
  arg_transport :: string
  arg_host :: "string option"
  arg_port :: "int option"
  arg_path :: "string option"
  arg_log_level :: "string option"

definition net_args ::
  "string \<Rightarrow> string \<Rightarrow> int \<Rightarrow> string \<Rightarrow> string option \<Rightarrow> run_async_args" where
  "net_args tr host port path lvl =
     \<lparr>arg_transport = tr, arg_host = Some host, arg_port = Some port, arg_path = Some path,
      arg_log_level = lvl\<rparr>"

text \<open>
  The created server is represented by its \<^verbatim>\<open>run_async\<close> method; an exception it
  raises is logged and raised again.
\<close>

definition run ::
  "(run_async_args \<Rightarrow> exn + unit) option \<Rightarrow> string \<Rightarrow> string \<Rightarrow> int \<Rightarrow> string \<Rightarrow>
     string option \<Rightarrow> exn + unit" where
  "run mcp_server transport host port path log_level =
     (case mcp_server of
        None \<Rightarrow> Inl (RuntimeError ''Server not created. Call create_server() first.'')
      | Some run_async \<Rightarrow>
          (let np = normalized_path path;
               lvl = (case log_level of Some l \<Rightarrow> if l \<noteq> [] then Some l else None
                      | None \<Rightarrow> None)
           in if transport = ''stdio''
              then run_async \<lparr>arg_transport = ''stdio'', arg_host = None, arg_port = None,
                              arg_path = None, arg_log_level = None\<rparr>
              else if transport = ''http'' then run_async (net_args ''http'' host port np lvl)
              else if transport = ''streamable-http''
                then run_async (net_args ''streamable-http'' host port np lvl)
              else if transport = ''sse'' then run_async (net_args ''sse'' host port np None)
              else run_async (net_args ''http'' host port np None)))"

section \<open>An example upstream server\<close>

text \<open>
  A concrete server, used to run the model on concrete inputs. It knows four users
  (the third is handed an empty token, the fourth a token that ends in the code point
  233) and rejects every other login with status 401. Its beacons endpoint answers 201,
  its listeners endpoint 200. The tasks endpoint answers 200 for the host
  \<^verbatim>\<open>busy.example\<close>, 201 for the host \<^verbatim>\<open>created.example\<close>, each with 120 items, and
  raises for any other host; the system-information endpoint answers 503 for
  \<^verbatim>\<open>busy.example\<close> and raises for any other host. Every base URL is accepted.
\<close>

definition demo_response :: "int \<Rightarrow> string \<Rightarrow> string + json \<Rightarrow> response" where
  "demo_response code body js =
     \<lparr>status_code = code, resp_text = body, resp_json = js,
      status_message = ''HTTP status error''\<rparr>"

definition token_response :: "json \<Rightarrow> response" where
  "token_response tok = demo_response 200 ''{...}'' (Inr (JObj [(''access_token'', tok)]))"

definition demo_upstream :: "async_client \<Rightarrow> request \<Rightarrow> exn + response" where
  "demo_upstream cl req =
     (case req of
        POST path body \<Rightarrow>
          if body = login_payload ''operator'' ''secret'' 86400000
            then Inr (token_response (JStr ''abc123''))
          else if body = login_payload ''deputy'' ''secret'' 86400000
            then Inr (token_response (JStr ''xyz789''))
          else if body = login_payload ''blank'' ''secret'' 86400000
            then Inr (token_response (JStr []))
          else if body = login_payload ''renee'' ''secret'' 86400000
            then Inr (token_response (JStr (''ren'' @ [CHR 0xE9])))
          else Inr (demo_response 401 '' invalid credentials '' (Inl ''not JSON''))
      | GET path \<Rightarrow>
          if path = ''/api/v1/beacons''
            then Inr (demo_response 201 ''[{}, {}]'' (Inr (JList [JObj [], JObj []])))
          else if path = ''/api/v1/listeners''
            then Inr (demo_response 200 ''[{}, {}, {}]''
                        (Inr (JList [JObj [], JObj [], JObj []])))
          else if path = ''/api/v1/tasks''
            then (if client_base_url cl = ''https://busy.example''
                  then Inr (demo_response 200 ''[...]'' (Inr (JList (map JInt [0..<120]))))
                  else if client_base_url cl = ''https://created.example''
                  then Inr (demo_response 201 ''[...]'' (Inr (JList (map JInt [0..<120]))))
                  else Inl (HTTPError ''connection reset''))
          else if path = ''/api/v1/config/localip''
            then Inr (demo_response 200 ''10.0.0.5'' (Inl ''not JSON''))
          else if path = ''/api/v1/config/systeminformation''
            then (if client_base_url cl = ''https://busy.example''
                  then Inr (demo_response 503 ''unavailable'' (Inl ''not JSON''))
                  else Inl (HTTPError ''read timeout''))
          else Inr (demo_response 404 ''not found'' (Inl ''not JSON'')))"

definition demo :: runtime where
  "demo = \<lparr>upstream = demo_upstream, str_other = (\<lambda>v. ''<object>''),
           check_url = (\<lambda>u. None),
           encode_error = (\<lambda>s. ''ascii codec cannot encode '' @ s)\<rparr>"

definition fresh :: "string \<Rightarrow> state" where
  "fresh b = (init b True 30, [])"

definition login :: "string \<Rightarrow> state \<Rightarrow> (exn + json) \<times> state" where
  "login username st = authenticate demo username ''secret'' 86400000 ''/api/auth/login'' st"

text \<open>The sessions and client objects that the example runs produce.\<close>

definition demo_session :: "string \<Rightarrow> json \<Rightarrow> nat option \<Rightarrow> cobalt_strike_client" where
  "demo_session b tok c =
     \<lparr>base_url = b, verify_tls = True, timeout = 30, token = tok, client = c\<rparr>"

definition demo_login_client :: "string \<Rightarrow> bool \<Rightarrow> async_client" where
  "demo_login_client b shut =
     \<lparr>client_base_url = b, verify = True, client_timeout = 30,
      headers = [(''User-Agent'', ''cs-mcp/1.0''), (''Accept'', ''application/json'')],
      is_closed = shut\<rparr>"

definition demo_shared_client :: "string \<Rightarrow> string \<Rightarrow> bool \<Rightarrow> async_client" where
  "demo_shared_client b tok shut =
     \<lparr>client_base_url = b, verify = True, client_timeout = 30,
      headers = [(''Authorization'', ''Bearer '' @ tok), (''User-Agent'', ''cs-mcp/1.0''),
                 (''Accept'', ''application/json'')],
      is_closed = shut\<rparr>"

section \<open>Path normalisation\<close>

text \<open>
  \<^verbatim>\<open>rstrip\<close> removes a suffix made of the given characters only, and what is left does
  not end in one of them.
\<close>

lemma rstrip_split: "\<exists>zs. s = rstrip cs s @ zs \<and> set zs \<subseteq> set cs"
proof -
  let ?P = "\<lambda>c. c \<in> set cs"
  have "rev s = takeWhile ?P (rev s) @ dropWhile ?P (rev s)"
    by simp
  then have "s = rev (dropWhile ?P (rev s)) @ rev (takeWhile ?P (rev s))"
    by (metis rev_append rev_rev_ident)
  moreover have "set (rev (takeWhile ?P (rev s))) \<subseteq> set cs"
    using set_takeWhileD by fastforce
  ultimately show ?thesis unfolding rstrip_def by blast
qed

lemma rstrip_last: "rstrip cs s \<noteq> [] \<Longrightarrow> last (rstrip cs s) \<notin> set cs"
  unfolding rstrip_def
  by (metis (mono_tags, lifting) hd_dropWhile last_rev rev_is_Nil_conv)

lemma only_slashes: "set zs \<subseteq> set ''/'' \<Longrightarrow> zs = replicate (length zs) CHR ''/''"
  by (induction zs) auto

text \<open>
  Claim C7. For every input path, the path that \<^verbatim>\<open>run\<close> normalises is the input, with a
  slash put in front unless it starts with one, less a run of trailing slashes; it is
  not empty, starts with a slash, and either is the root \<^verbatim>\<open>/\<close> or does not end with a
  slash. These four facts determine it. In particular \<^verbatim>\<open>mcp\<close> becomes \<^verbatim>\<open>/mcp\<close>,
  \<^verbatim>\<open>/mcp/\<close> becomes \<^verbatim>\<open>/mcp\<close> and \<^verbatim>\<open>/\<close> stays \<^verbatim>\<open>/\<close>.
\<close>

theorem normalized_path_form:
  "(\<exists>k. (if p \<noteq> [] \<and> hd p = CHR ''/'' then p else CHR ''/'' # p) =
          normalized_path p @ replicate k CHR ''/'') \<and>
   normalized_path p \<noteq> [] \<and> hd (normalized_path p) = CHR ''/'' \<and>
   (normalized_path p = ''/'' \<or> last (normalized_path p) \<noteq> CHR ''/'') \<and>
   normalized_path ''mcp'' = ''/mcp'' \<and> normalized_path ''/mcp/'' = ''/mcp'' \<and>
   normalized_path ''/'' = ''/''"
proof -
  define p' where "p' = (if p \<noteq> [] \<and> hd p = CHR ''/'' then p else CHR ''/'' # p)"
  define q where "q = rstrip ''/'' p'"
  have p'_alt: "p' = (if startswith p ''/'' then p else ''/'' @ p)"
    by (cases p) (auto simp: p'_def startswith_def)
  have np: "normalized_path p = (if q \<noteq> [] then q else ''/'')"
    by (simp add: normalized_path_def p'_alt q_def Let_def)
  have p'_hd: "p' \<noteq> [] \<and> hd p' = CHR ''/''"
    by (cases p) (auto simp: p'_def)
  obtain zs where split: "p' = q @ zs" and zs: "zs = replicate (length zs) CHR ''/''"
    using rstrip_split[of p' "''/''"] only_slashes q_def by blast
  have hdq: "q \<noteq> [] \<Longrightarrow> hd q = CHR ''/''"
    using p'_hd split by (metis hd_append2)
  have lastq: "q \<noteq> [] \<Longrightarrow> last q \<noteq> CHR ''/''"
    using rstrip_last[of "''/''" p'] q_def by simp
  have content: "\<exists>k. p' = normalized_path p @ replicate k CHR ''/''"
  proof (cases "q = []")
    case False
    then show ?thesis using np split zs by metis
  next
    case True
    then have "p' = replicate (length zs) CHR ''/''" using split zs by simp
    moreover have "length zs \<noteq> 0" using p'_hd split True by auto
    ultimately have "p' = ''/'' @ replicate (length zs - 1) CHR ''/''"
      by (cases "length zs") simp_all
    then show ?thesis using np True by auto
  qed
  have ex: "normalized_path ''mcp'' = ''/mcp''" "normalized_path ''/mcp/'' = ''/mcp''"
    "normalized_path ''/'' = ''/''"
    by (simp_all add: normalized_path_def startswith_def rstrip_def)
  show ?thesis using content np hdq lastq ex unfolding p'_def by auto
qed

text \<open>The theorem at \<^verbatim>\<open>api//\<close>: both trailing slashes go, a leading one is added.\<close>

theorem normalized_path_form_witness:
  "normalized_path ''api//'' = ''/api'' \<and>
   ''/api//'' = normalized_path ''api//'' @ replicate 2 CHR ''/'' \<and>
   hd (normalized_path ''api//'') = CHR ''/'' \<and>
   last (normalized_path ''api//'') \<noteq> CHR ''/''"
proof -
  have v: "normalized_path ''api//'' = ''/api''"
    by (simp add: normalized_path_def startswith_def rstrip_def)
  have r: "replicate 2 CHR ''/'' = ''//''"
    by (simp add: numeral_2_eq_2)
  show ?thesis using normalized_path_form[of "''api//''"] v r by simp
qed

text \<open>
  A path is determined by what it is without its trailing slashes: two non-empty
  strings that are the root or do not end in a slash, and that differ from the same
  string by trailing slashes only, are equal.
\<close>

lemma trailing_slashes_less:
  assumes eq: "r @ replicate k CHR ''/'' = r2 @ replicate j CHR ''/''"
    and less: "k < j"
    and r: "r = ''/'' \<or> last r \<noteq> CHR ''/''"
    and r2: "r2 \<noteq> []"
  shows False
proof -
  have "replicate j CHR ''/'' = replicate (j - k) CHR ''/'' @ replicate k CHR ''/''"
    using less by (simp add: replicate_add [symmetric])
  then have "r @ replicate k CHR ''/'' = (r2 @ replicate (j - k) CHR ''/'') @ replicate k CHR ''/''"
    using eq by simp
  then have r_eq: "r = r2 @ replicate (j - k) CHR ''/''"
    by simp
  have "last r = CHR ''/''"
    using less by (simp add: r_eq)
  then have "r = ''/''" using r by blast
  then have "length (r2 @ replicate (j - k) CHR ''/'') = 1"
    using r_eq by simp
  then show False using r2 less by (cases r2) auto
qed

lemma trailing_slashes_unique:
  assumes "r @ replicate k CHR ''/'' = r2 @ replicate j CHR ''/''"
    and "r \<noteq> []" and "r = ''/'' \<or> last r \<noteq> CHR ''/''"
    and "r2 \<noteq> []" and "r2 = ''/'' \<or> last r2 \<noteq> CHR ''/''"
  shows "r = r2"
proof -
  consider "k < j" | "j < k" | "k = j" by linarith
  then show ?thesis
  proof cases
    case 1
    then show ?thesis using trailing_slashes_less[OF assms(1) _ assms(3) assms(4)] by blast
  next
    case 2
    then show ?thesis
      using trailing_slashes_less[OF assms(1)[symmetric] _ assms(5) assms(2)] by blast
  next
    case 3
    then show ?thesis using assms(1) by simp
  qed
qed

text \<open>For the HTTP transport, \<^verbatim>\<open>run\<close> hands the normalised path to the runtime.\<close>

lemma run_http_path:
  "run (Some run_async) ''http'' host port path None =
     run_async (net_args ''http'' host port (normalized_path path) None)"
  by (simp add: run_def)

section \<open>The session client\<close>

text \<open>
  Claim C8. From every state of the session (shared client never constructed,
  constructed, or already closed), \<^verbatim>\<open>close\<close> called twice in a row returns normally both
  times, the reference to the shared client is \<open>None\<close> after each call, the stored token
  is the same after each call as before, and the second call changes nothing at all.
\<close>

theorem close_twice:
  "fst (close st) = Inr () \<and>
   client (fst (snd (close st))) = None \<and>
   token (fst (snd (close st))) = token (fst st) \<and>
   fst (close (snd (close st))) = Inr () \<and>
   client (fst (snd (close (snd (close st))))) = None \<and>
   token (fst (snd (close (snd (close st))))) = token (fst st) \<and>
   snd (close (snd (close st))) = snd (close st)"
  by (cases st) (auto simp: close_def split: option.splits)

text \<open>The headers of the login client are ASCII: its constructor raises for the URL only.\<close>

lemma login_headers_ascii: "non_ascii_header login_headers = None"
  by (simp add: login_headers_def USER_AGENT_def is_ascii_def)

lemma AsyncClient_Inr:
  "AsyncClient env b v t hs h = Inr (c, h') \<longleftrightarrow>
     check_url env b = None \<and> non_ascii_header hs = None \<and> c = length h \<and>
     h' = h @ [\<lparr>client_base_url = b, verify = v, client_timeout = t, headers = hs,
                is_closed = False\<rparr>]"
  by (auto simp: AsyncClient_def split: option.splits)

lemma aclose_new: "aclose (length h) (h @ [x]) = h @ [x\<lparr>is_closed := True\<rparr>]"
  by (simp add: aclose_def)

lemma length_aclose: "length (aclose c h) = length h"
  by (simp add: aclose_def)

text \<open>\<^verbatim>\<open>authenticate\<close> by the outcome of its \<^verbatim>\<open>try\<close> block.\<close>

lemma authenticate_unfold:
  assumes "AsyncClient env (base_url self) (verify_tls self) (timeout self) login_headers h =
             Inr (c, h1)"
  shows "authenticate env u p d l (self, h) =
      (case login_attempt env h1 c l (login_payload u p d) of
         Inl (HTTPStatusError m r) \<Rightarrow>
           (Inl (RuntimeError (''Authentication failed with status ''
                   @ str_int (status_code r) @ '': ''
                   @ (if strip (resp_text r) \<noteq> [] then strip (resp_text r) else m))),
            self, aclose c h1)
       | Inl (HTTPError m) \<Rightarrow>
           (Inl (RuntimeError (''Authentication request failed: '' @ m)), self, aclose c h1)
       | Inl e \<Rightarrow> (Inl e, self, aclose c h1)
       | Inr data \<Rightarrow>
           (case data of
              JObj kvs \<Rightarrow>
                (if \<not> truthy (dict_get kvs ''access_token'')
                 then (Inl (RuntimeError
                         ''Authentication response did not include 'access_token'.''),
                       self, aclose c h1)
                 else (Inr (dict_get kvs ''access_token''),
                       self\<lparr>token := dict_get kvs ''access_token''\<rparr>, aclose c h1))
            | _ \<Rightarrow> (Inl (AttributeError
                          ([CHR 0x27] @ type_name data @ [CHR 0x27]
                             @ '' object has no attribute 'get'' @ [CHR 0x27])),
                     self, aclose c h1)))"
  using assms
  by (simp add: authenticate_def Let_def split: sum.split exn.split json.split)

text \<open>When the constructor of the login client raises, so does \<^verbatim>\<open>authenticate\<close>.\<close>

lemma authenticate_no_client:
  assumes "AsyncClient env (base_url self) (verify_tls self) (timeout self) login_headers h =
             Inl e"
  shows "authenticate env u p d l (self, h) = (Inl e, self, h)"
  using assms by (simp add: authenticate_def)

text \<open>
  A successful \<^verbatim>\<open>authenticate\<close> returns a truthy token, stores it, and leaves one more
  object in the store: the login client, closed. The base URL of the session was
  accepted by the constructor.
\<close>

lemma authenticate_success:
  assumes "authenticate env u p d l (self, h) = (Inr tok, st1)"
  shows "truthy tok \<and> check_url env (base_url self) = None \<and>
         st1 = (self\<lparr>token := tok\<rparr>,
                h @ [\<lparr>client_base_url = base_url self, verify = verify_tls self,
                       client_timeout = timeout self, headers = login_headers,
                       is_closed = True\<rparr>])"
proof (cases "AsyncClient env (base_url self) (verify_tls self) (timeout self) login_headers h")
  case (Inl e)
  then show ?thesis using assms by (simp add: authenticate_no_client)
next
  case (Inr r)
  obtain c h1 where r: "r = (c, h1)" by (cases r)
  have a: "AsyncClient env (base_url self) (verify_tls self) (timeout self) login_headers h =
             Inr (c, h1)"
    using Inr r by simp
  have url: "check_url env (base_url self) = None" and c: "c = length h"
    and h1: "h1 = h @ [\<lparr>client_base_url = base_url self, verify = verify_tls self,
                          client_timeout = timeout self, headers = login_headers,
                          is_closed = False\<rparr>]"
    using a by (simp_all add: AsyncClient_Inr)
  have cl: "aclose c h1 = h @ [\<lparr>client_base_url = base_url self, verify = verify_tls self,
                                 client_timeout = timeout self, headers = login_headers,
                                 is_closed = True\<rparr>]"
    unfolding c h1 by (simp add: aclose_new)
  show ?thesis
    using assms url unfolding authenticate_unfold[OF a] cl
    by (auto split: sum.splits exn.splits json.splits if_splits)
qed

lemma get_client_unauthenticated:
  "\<not> truthy (token self) \<Longrightarrow>
     get_authenticated_client env (self, h) =
       (Inl (RuntimeError ''Not authenticated. Call authenticate() first.''), self, h)"
  by (simp add: get_authenticated_client_def)

lemma get_client_existing:
  "truthy (token self) \<Longrightarrow> client self = Some c \<Longrightarrow>
     get_authenticated_client env (self, h) = (Inr c, self, h)"
  by (simp add: get_authenticated_client_def)

lemma get_client_new:
  "truthy (token self) \<Longrightarrow> client self = None \<Longrightarrow> check_url env (base_url self) = None \<Longrightarrow>
   is_ascii (format_value env (token self)) \<Longrightarrow>
     get_authenticated_client env (self, h) =
       (Inr (length h), self\<lparr>client := Some (length h)\<rparr>,
        h @ [\<lparr>client_base_url = base_url self, verify = verify_tls self,
               client_timeout = timeout self,
               headers = [(''Authorization'', ''Bearer '' @ format_value env (token self)),
                          (''User-Agent'', USER_AGENT),
                          (''Accept'', ''application/json'')],
               is_closed = False\<rparr>])"
  by (simp add: get_authenticated_client_def AsyncClient_def Let_def is_ascii_def USER_AGENT_def)

lemma get_client_encode_error:
  "truthy (token self) \<Longrightarrow> client self = None \<Longrightarrow> check_url env (base_url self) = None \<Longrightarrow>
   \<not> is_ascii (format_value env (token self)) \<Longrightarrow>
     get_authenticated_client env (self, h) =
       (Inl (UnicodeEncodeError (encode_error env (''Bearer '' @ format_value env (token self)))),
        self, h)"
  by (simp add: get_authenticated_client_def AsyncClient_def Let_def is_ascii_def USER_AGENT_def)


lemma well_formed_authenticate:
  "well_formed st \<Longrightarrow> well_formed (snd (authenticate env u p d l st))"
proof -
  assume wf: "well_formed st"
  obtain self h where st: "st = (self, h)" by (cases st)
  show ?thesis
  proof (cases "AsyncClient env (base_url self) (verify_tls self) (timeout self)
                  login_headers h")
    case (Inl e)
    then show ?thesis using wf by (simp add: st authenticate_no_client)
  next
    case (Inr r)
    obtain c h1 where r: "r = (c, h1)" by (cases r)
    have a: "AsyncClient env (base_url self) (verify_tls self) (timeout self) login_headers h =
               Inr (c, h1)"
      using Inr r by simp
    then have len: "length (aclose c h1) = Suc (length h)"
      by (simp add: AsyncClient_Inr length_aclose)
    show ?thesis
      using wf len unfolding st authenticate_unfold[OF a]
      by (auto simp: well_formed_def split: sum.splits exn.splits json.splits option.splits)
  qed
qed

lemma well_formed_get_authenticated_client:
  "well_formed st \<Longrightarrow> well_formed (snd (get_authenticated_client env st))"
  by (cases st)
     (auto simp: well_formed_def get_authenticated_client_def AsyncClient_def Let_def
           split: option.splits)

lemma well_formed_close: "well_formed (snd (close st))"
  by (cases st) (auto simp: well_formed_def close_def split: option.splits)

lemmas demo_defs =
  demo_def demo_upstream_def demo_response_def token_response_def fresh_def login_def
  demo_session_def demo_login_client_def demo_shared_client_def
  init_def rstrip_def login_payload_def login_headers_def USER_AGENT_def is_ascii_def
  authenticate_def login_attempt_def client_post_def client_get_def AsyncClient_def aclose_def
  raise_for_status_def is_success_def response_json_def dict_get_def
  get_authenticated_client_def format_value_def close_def Let_def

text \<open>
  Claim C2. When the login request is answered with a status outside 200 to 299,
  \<^verbatim>\<open>authenticate\<close> raises a \<^verbatim>\<open>RuntimeError\<close> whose message carries the status and the
  stripped body text (the message of the status error when the stripped body is empty);
  the session is unchanged (only the closed login client is added to the store), so a
  session without a token still has none and \<^verbatim>\<open>get_authenticated_client\<close> still raises
  the not-authenticated error.
\<close>

theorem authenticate_non_2xx:
  assumes "AsyncClient env (base_url self) (verify_tls self) (timeout self) login_headers h =
             Inr (c, h1)"
    and "client_post env h1 c login_path (login_payload username password duration_ms) = Inr resp"
    and "\<not> is_success resp"
  shows "authenticate env username password duration_ms login_path (self, h) =
           (Inl (RuntimeError (''Authentication failed with status '' @ str_int (status_code resp)
                   @ '': '' @ (if strip (resp_text resp) \<noteq> [] then strip (resp_text resp)
                               else status_message resp))),
            self, aclose c h1)
         \<and> (\<not> truthy (token self) \<longrightarrow>
              fst (get_authenticated_client env
                     (snd (authenticate env username password duration_ms login_path (self, h))))
              = Inl (RuntimeError ''Not authenticated. Call authenticate() first.''))"
proof -
  have att: "login_attempt env h1 c login_path (login_payload username password duration_ms)
               = Inl (HTTPStatusError (status_message resp) resp)"
    using assms(2,3) by (simp add: login_attempt_def raise_for_status_def)
  have res: "authenticate env username password duration_ms login_path (self, h) =
           (Inl (RuntimeError (''Authentication failed with status '' @ str_int (status_code resp)
                   @ '': '' @ (if strip (resp_text resp) \<noteq> [] then strip (resp_text resp)
                               else status_message resp))),
            self, aclose c h1)"
    unfolding authenticate_unfold[OF assms(1)] att by simp
  show ?thesis unfolding res
    by (simp add: get_client_unauthenticated)
qed

text \<open>An unknown user on a fresh session: status 401, body \<^verbatim>\<open> invalid credentials \<close>.\<close>

theorem authenticate_non_2xx_witness:
  "\<not> is_success (demo_response 401 '' invalid credentials '' (Inl ''not JSON'')) \<and>
   login ''mallory'' (fresh ''https://cs.example/'') =
     (Inl (RuntimeError ''Authentication failed with status 401: invalid credentials''),
      demo_session ''https://cs.example'' JNull None,
      [demo_login_client ''https://cs.example'' True]) \<and>
   fst (get_authenticated_client demo (snd (login ''mallory'' (fresh ''https://cs.example/''))))
     = Inl (RuntimeError ''Not authenticated. Call authenticate() first.'')"
proof -
  let ?self = "init ''https://cs.example/'' True 30"
  let ?resp = "demo_response 401 '' invalid credentials '' (Inl ''not JSON'')"
  have a: "AsyncClient demo (base_url ?self) (verify_tls ?self) (timeout ?self) login_headers [] =
             Inr (0, [demo_login_client ''https://cs.example'' False])"
    by (simp add: demo_defs)
  have b: "client_post demo [demo_login_client ''https://cs.example'' False] 0
             ''/api/auth/login'' (login_payload ''mallory'' ''secret'' 86400000) = Inr ?resp"
    by (simp add: demo_defs)
  have c: "\<not> is_success ?resp"
    by (simp add: demo_defs)
  have d: "\<not> truthy (token ?self)"
    by (simp add: init_def)
  have s: "strip '' invalid credentials '' = ''invalid credentials''"
    by (simp add: strip_def rstrip_def whitespace_def)
  have n: "str_int 401 = ''401''"
    by (simp add: str_int_def str_nat.simps digit_def)
  from authenticate_non_2xx[OF a b c] c d s n show ?thesis
    by (simp add: login_def fresh_def demo_response_def demo_session_def
          demo_login_client_def aclose_def init_def rstrip_def get_authenticated_client_def)
qed

text \<open>
  Claim C9. When the login request is answered with a status from 200 to 299 and a JSON
  object whose \<^verbatim>\<open>access_token\<close> field is present but falsy (the empty string, \<^verbatim>\<open>null\<close>,
  \<^verbatim>\<open>false\<close>, zero, an empty list or object), \<^verbatim>\<open>authenticate\<close> raises the missing-token
  error and leaves the session, and so the stored token, unchanged.
\<close>

theorem authenticate_falsy_token:
  assumes "AsyncClient env (base_url self) (verify_tls self) (timeout self) login_headers h =
             Inr (c, h1)"
    and "client_post env h1 c login_path (login_payload username password duration_ms) = Inr resp"
    and "is_success resp"
    and "resp_json resp = Inr (JObj kvs)"
    and "map_of kvs ''access_token'' = Some v"
    and "\<not> truthy v"
  shows "authenticate env username password duration_ms login_path (self, h) =
           (Inl (RuntimeError ''Authentication response did not include 'access_token'.''),
            self, aclose c h1)"
proof -
  have att: "login_attempt env h1 c login_path (login_payload username password duration_ms)
               = Inr (JObj kvs)"
    using assms(2,3,4) by (simp add: login_attempt_def raise_for_status_def response_json_def)
  have "dict_get kvs ''access_token'' = v"
    using assms(5) by (simp add: dict_get_def)
  then show ?thesis
    unfolding authenticate_unfold[OF assms(1)] att using assms(6) by simp
qed

text \<open>The user who is handed the empty string as a token.\<close>

theorem authenticate_falsy_token_witness:
  "is_success (token_response (JStr [])) \<and>
   map_of [(''access_token'', JStr [])] ''access_token'' = Some (JStr []) \<and>
   \<not> truthy (JStr []) \<and>
   login ''blank'' (fresh ''https://cs.example/'') =
     (Inl (RuntimeError ''Authentication response did not include 'access_token'.''),
      demo_session ''https://cs.example'' JNull None,
      [demo_login_client ''https://cs.example'' True])"
proof -
  let ?self = "init ''https://cs.example/'' True 30"
  let ?resp = "token_response (JStr [])"
  have a: "AsyncClient demo (base_url ?self) (verify_tls ?self) (timeout ?self) login_headers [] =
             Inr (0, [demo_login_client ''https://cs.example'' False])"
    by (simp add: demo_defs)
  have b: "client_post demo [demo_login_client ''https://cs.example'' False] 0
             ''/api/auth/login'' (login_payload ''blank'' ''secret'' 86400000) = Inr ?resp"
    by (simp add: demo_defs)
  have c: "is_success ?resp"
    by (simp add: demo_defs)
  have d: "resp_json ?resp = Inr (JObj [(''access_token'', JStr [])])"
    by (simp add: demo_defs)
  have e: "map_of [(''access_token'', JStr [])] ''access_token'' = Some (JStr [])"
    by simp
  have f: "\<not> truthy (JStr [])"
    by simp
  from authenticate_falsy_token[OF a b c d e f] c show ?thesis
    by (simp add: login_def fresh_def demo_session_def demo_login_client_def aclose_def
          init_def rstrip_def)
qed




text \<open>
  Claim C4, as the code has it. After \<^verbatim>\<open>authenticate\<close> has succeeded with token \<open>tok\<close>
  (the session now stores it, and the store has gained the closed login client only):
  if the session already refers to a shared client, \<^verbatim>\<open>get_authenticated_client\<close> returns
  that client and changes nothing, so its headers are those it was constructed with;
  if not, and the text of the token is ASCII, it constructs and returns a client whose
  headers are \<^verbatim>\<open>Authorization: Bearer\<close> followed by the token, \<^verbatim>\<open>User-Agent\<close> and
  \<^verbatim>\<open>Accept: application/json\<close>, with the base address, TLS flag and timeout of the
  session; if the text of the token is not ASCII, it raises \<^verbatim>\<open>UnicodeEncodeError\<close> and
  constructs nothing. A token that is a string is interpolated as it is.
\<close>

theorem authorization_header:
  assumes "authenticate env username password duration_ms login_path (self, h) = (Inr tok, st1)"
  shows "get_authenticated_client env st1 =
           (case client self of
              Some c \<Rightarrow> (Inr c, st1)
            | None \<Rightarrow>
                if is_ascii (format_value env tok)
                then (Inr (length (snd st1)),
                      self\<lparr>token := tok, client := Some (length (snd st1))\<rparr>,
                      snd st1 @
                        [\<lparr>client_base_url = base_url self, verify = verify_tls self,
                           client_timeout = timeout self,
                           headers = [(''Authorization'', ''Bearer '' @ format_value env tok),
                                      (''User-Agent'', USER_AGENT),
                                      (''Accept'', ''application/json'')],
                           is_closed = False\<rparr>])
                else (Inl (UnicodeEncodeError
                             (encode_error env (''Bearer '' @ format_value env tok))),
                      st1))
         \<and> st1 = (self\<lparr>token := tok\<rparr>,
                  h @ [\<lparr>client_base_url = base_url self, verify = verify_tls self,
                         client_timeout = timeout self, headers = login_headers,
                         is_closed = True\<rparr>])
         \<and> (\<forall>t. format_value env (JStr t) = t)"
proof -
  from authenticate_success[OF assms] have
    tok: "truthy tok" and url: "check_url env (base_url self) = None"
    and st1: "st1 = (self\<lparr>token := tok\<rparr>,
                     h @ [\<lparr>client_base_url = base_url self, verify = verify_tls self,
                            client_timeout = timeout self, headers = login_headers,
                            is_closed = True\<rparr>])"
    by simp_all
  let ?self = "self\<lparr>token := tok\<rparr>"
  have fmt: "\<forall>t. format_value env (JStr t) = t"
    by (simp add: format_value_def)
  have g: "get_authenticated_client env st1 =
           (case client self of
              Some c \<Rightarrow> (Inr c, st1)
            | None \<Rightarrow>
                if is_ascii (format_value env tok)
                then (Inr (length (snd st1)),
                      self\<lparr>token := tok, client := Some (length (snd st1))\<rparr>,
                      snd st1 @
                        [\<lparr>client_base_url = base_url self, verify = verify_tls self,
                           client_timeout = timeout self,
                           headers = [(''Authorization'', ''Bearer '' @ format_value env tok),
                                      (''User-Agent'', USER_AGENT),
                                      (''Accept'', ''application/json'')],
                           is_closed = False\<rparr>])
                else (Inl (UnicodeEncodeError
                             (encode_error env (''Bearer '' @ format_value env tok))),
                      st1))"
  proof (cases "client self")
    case (Some c)
    then show ?thesis
      using get_client_existing[of ?self c env "snd st1"] tok by (simp add: st1)
  next
    case None
    show ?thesis
    proof (cases "is_ascii (format_value env tok)")
      case True
      then show ?thesis
        using get_client_new[of ?self env "snd st1"] tok None url by (simp add: st1)
    next
      case False
      then show ?thesis
        using get_client_encode_error[of ?self env "snd st1"] tok None url by (simp add: st1)
    qed
  qed
  show ?thesis using g st1 fmt by blast
qed

text \<open>The first login on a fresh session.\<close>

theorem authorization_header_witness:
  "login ''operator'' (fresh ''https://cs.example/'') =
     (Inr (JStr ''abc123''),
      demo_session ''https://cs.example'' (JStr ''abc123'') None,
      [demo_login_client ''https://cs.example'' True]) \<and>
   get_authenticated_client demo
     (demo_session ''https://cs.example'' (JStr ''abc123'') None,
      [demo_login_client ''https://cs.example'' True]) =
     (Inr 1,
      demo_session ''https://cs.example'' (JStr ''abc123'') (Some 1),
      [demo_login_client ''https://cs.example'' True,
       demo_shared_client ''https://cs.example'' ''abc123'' False])"
proof -
  let ?self = "init ''https://cs.example/'' True 30"
  let ?st1 = "(demo_session ''https://cs.example'' (JStr ''abc123'') None,
               [demo_login_client ''https://cs.example'' True])"
  have a: "authenticate demo ''operator'' ''secret'' 86400000 ''/api/auth/login'' (?self, []) =
             (Inr (JStr ''abc123''), ?st1)"
    by (simp add: demo_defs)
  have b: "client ?self = None"
    by (simp add: init_def)
  have c: "is_ascii (format_value demo (JStr ''abc123''))"
    by (simp add: format_value_def is_ascii_def)
  from authorization_header[OF a] b c a show ?thesis
    by (simp add: login_def fresh_def init_def rstrip_def demo_session_def login_headers_def
          demo_login_client_def demo_shared_client_def USER_AGENT_def format_value_def)
qed

text \<open>
  The claim as stated fails for a second login. After \<^verbatim>\<open>operator\<close> has logged in and
  the shared client exists (address 1), the login of \<^verbatim>\<open>deputy\<close> succeeds with token
  \<^verbatim>\<open>xyz789\<close>; \<^verbatim>\<open>get_authenticated_client\<close> then still returns the client at address 1,
  whose header carries \<^verbatim>\<open>abc123\<close>. It also fails for the first login of \<^verbatim>\<open>renee\<close>,
  whose token is not ASCII: no client is returned.
\<close>

theorem relogin_counterexample:
  "get_authenticated_client demo (snd (login ''operator'' (fresh ''https://cs.example/''))) =
     (Inr 1,
      demo_session ''https://cs.example'' (JStr ''abc123'') (Some 1),
      [demo_login_client ''https://cs.example'' True,
       demo_shared_client ''https://cs.example'' ''abc123'' False]) \<and>
   login ''deputy''
     (demo_session ''https://cs.example'' (JStr ''abc123'') (Some 1),
      [demo_login_client ''https://cs.example'' True,
       demo_shared_client ''https://cs.example'' ''abc123'' False]) =
     (Inr (JStr ''xyz789''),
      demo_session ''https://cs.example'' (JStr ''xyz789'') (Some 1),
      [demo_login_client ''https://cs.example'' True,
       demo_shared_client ''https://cs.example'' ''abc123'' False,
       demo_login_client ''https://cs.example'' True]) \<and>
   get_authenticated_client demo
     (demo_session ''https://cs.example'' (JStr ''xyz789'') (Some 1),
      [demo_login_client ''https://cs.example'' True,
       demo_shared_client ''https://cs.example'' ''abc123'' False,
       demo_login_client ''https://cs.example'' True]) =
     (Inr 1,
      demo_session ''https://cs.example'' (JStr ''xyz789'') (Some 1),
      [demo_login_client ''https://cs.example'' True,
       demo_shared_client ''https://cs.example'' ''abc123'' False,
       demo_login_client ''https://cs.example'' True]) \<and>
   map_of (headers ([demo_login_client ''https://cs.example'' True,
                     demo_shared_client ''https://cs.example'' ''abc123'' False,
                     demo_login_client ''https://cs.example'' True] ! 1))
     ''Authorization'' = Some ''Bearer abc123'' \<and>
   ''Bearer abc123'' \<noteq> ''Bearer '' @ ''xyz789'' \<and>
   fst (login ''renee'' (fresh ''https://cs.example/'')) = Inr (JStr (''ren'' @ [CHR 0xE9])) \<and>
   fst (get_authenticated_client demo (snd (login ''renee'' (fresh ''https://cs.example/'')))) =
     Inl (UnicodeEncodeError (''ascii codec cannot encode Bearer ren'' @ [CHR 0xE9]))"
  by (simp add: demo_defs)




section \<open>The data view handlers\<close>

lemma fold_endpoints:
  "fold f endpoints s =
     f (''tasks'', ''/api/v1/tasks'')
       (f (''listeners'', ''/api/v1/listeners'') (f (''beacons'', ''/api/v1/beacons'') s))"
  by (simp add: endpoints_def)

lemmas handler_defs =
  dashboard_stats_resource_def endpoints_def endpoint_stats_def endpoint_try_def
  server_info_resource_def server_info_body_def server_info_def version_data_def
  dict_set_nested_def exception_envelope_def failed_envelope_def
  recent_activity_resource_def recent_activity_body_def activity_summary_def

text \<open>
  Claim C1, as the code has it. On an authenticated session the dashboard handler
  returns one document with the \<^verbatim>\<open>dashboard\<close> entry and one entry for each of beacons,
  listeners and tasks, each computed from the outcome of its own request alone. An
  endpoint whose request (or whose body decoding) raised gets count \<^verbatim>\<open>0\<close>, status
  \<^verbatim>\<open>error\<close> and the message; an endpoint answering 200 gets status \<^verbatim>\<open>available\<close> and the
  length of its list in decimal as count (\<^verbatim>\<open>1\<close> when the body is not a list); an endpoint
  answering any other status, 201 to 299 included, gets count \<^verbatim>\<open>0\<close>, status
  \<^verbatim>\<open>unavailable\<close> and the status as \<^verbatim>\<open>error_code\<close>.
\<close>

theorem dashboard_isolates_endpoints:
  assumes "get_authenticated_client env st = (Inr c, self, h)"
  shows "dashboard_stats_resource env st =
          (JObj [(''dashboard'', JObj [(''timestamp'', JStr ''real-time''),
                                       (''status'', JStr ''operational'')]),
                 (''beacons'', endpoint_stats (client_get env h c ''/api/v1/beacons'')),
                 (''listeners'', endpoint_stats (client_get env h c ''/api/v1/listeners'')),
                 (''tasks'', endpoint_stats (client_get env h c ''/api/v1/tasks''))],
           self, h)
       \<and> endpoint_stats (Inl e) =
           JObj [(''count'', JStr ''0''), (''status'', JStr ''error''),
                 (''error'', JStr (str_exn e))]
       \<and> endpoint_stats (Inr resp) =
           (if status_code resp = 200
            then (case resp_json resp of
                    Inl m \<Rightarrow> JObj [(''count'', JStr ''0''), (''status'', JStr ''error''),
                                   (''error'', JStr m)]
                  | Inr (JList xs) \<Rightarrow> JObj [(''count'', JStr (str_nat (length xs))),
                                          (''status'', JStr ''available'')]
                  | Inr _ \<Rightarrow> JObj [(''count'', JStr ''1''), (''status'', JStr ''available'')])
            else JObj [(''count'', JStr ''0''), (''status'', JStr ''unavailable''),
                       (''error_code'', JStr (str_int (status_code resp)))])"
proof -
  have doc: "dashboard_stats_resource env st =
          (JObj [(''dashboard'', JObj [(''timestamp'', JStr ''real-time''),
                                       (''status'', JStr ''operational'')]),
                 (''beacons'', endpoint_stats (client_get env h c ''/api/v1/beacons'')),
                 (''listeners'', endpoint_stats (client_get env h c ''/api/v1/listeners'')),
                 (''tasks'', endpoint_stats (client_get env h c ''/api/v1/tasks''))],
           self, h)"
    by (simp add: dashboard_stats_resource_def assms fold_endpoints)
  have err: "endpoint_stats (Inl e) =
           JObj [(''count'', JStr ''0''), (''status'', JStr ''error''),
                 (''error'', JStr (str_exn e))]"
    by (simp add: endpoint_stats_def endpoint_try_def)
  have resp: "endpoint_stats (Inr resp) =
           (if status_code resp = 200
            then (case resp_json resp of
                    Inl m \<Rightarrow> JObj [(''count'', JStr ''0''), (''status'', JStr ''error''),
                                   (''error'', JStr m)]
                  | Inr (JList xs) \<Rightarrow> JObj [(''count'', JStr (str_nat (length xs))),
                                          (''status'', JStr ''available'')]
                  | Inr _ \<Rightarrow> JObj [(''count'', JStr ''1''), (''status'', JStr ''available'')])
            else JObj [(''count'', JStr ''0''), (''status'', JStr ''unavailable''),
                       (''error_code'', JStr (str_int (status_code resp)))])"
    by (simp add: endpoint_stats_def endpoint_try_def response_json_def
          split: sum.split json.split)
  show ?thesis using doc err resp by blast
qed

text \<open>
  One response with the three kinds of entry: beacons answers 201, listeners answers
  200 with three items, the tasks request raises.
\<close>

theorem dashboard_isolates_endpoints_witness:
  "get_authenticated_client demo
     (demo_session ''https://cs.example'' (JStr ''abc123'') (Some 1),
      [demo_login_client ''https://cs.example'' True,
       demo_shared_client ''https://cs.example'' ''abc123'' False]) =
     (Inr 1,
      demo_session ''https://cs.example'' (JStr ''abc123'') (Some 1),
      [demo_login_client ''https://cs.example'' True,
       demo_shared_client ''https://cs.example'' ''abc123'' False]) \<and>
   dashboard_stats_resource demo
     (demo_session ''https://cs.example'' (JStr ''abc123'') (Some 1),
      [demo_login_client ''https://cs.example'' True,
       demo_shared_client ''https://cs.example'' ''abc123'' False]) =
     (JObj [(''dashboard'', JObj [(''timestamp'', JStr ''real-time''),
                                  (''status'', JStr ''operational'')]),
            (''beacons'', JObj [(''count'', JStr ''0''), (''status'', JStr ''unavailable''),
                                (''error_code'', JStr ''201'')]),
            (''listeners'', JObj [(''count'', JStr ''3''), (''status'', JStr ''available'')]),
            (''tasks'', JObj [(''count'', JStr ''0''), (''status'', JStr ''error''),
                              (''error'', JStr ''connection reset'')])],
      demo_session ''https://cs.example'' (JStr ''abc123'') (Some 1),
      [demo_login_client ''https://cs.example'' True,
       demo_shared_client ''https://cs.example'' ''abc123'' False])"
proof -
  let ?self = "demo_session ''https://cs.example'' (JStr ''abc123'') (Some 1)"
  let ?h = "[demo_login_client ''https://cs.example'' True,
             demo_shared_client ''https://cs.example'' ''abc123'' False]"
  have a: "get_authenticated_client demo (?self, ?h) = (Inr 1, ?self, ?h)"
    by (simp add: demo_defs)
  have b: "endpoint_stats (client_get demo ?h 1 ''/api/v1/beacons'') =
             JObj [(''count'', JStr ''0''), (''status'', JStr ''unavailable''),
                   (''error_code'', JStr ''201'')]"
    by (simp add: demo_defs endpoint_stats_def endpoint_try_def str_int_def str_nat.simps
          digit_def)
  have l: "endpoint_stats (client_get demo ?h 1 ''/api/v1/listeners'') =
             JObj [(''count'', JStr ''3''), (''status'', JStr ''available'')]"
    by (simp add: demo_defs endpoint_stats_def endpoint_try_def str_nat.simps digit_def)
  have t: "endpoint_stats (client_get demo ?h 1 ''/api/v1/tasks'') =
             JObj [(''count'', JStr ''0''), (''status'', JStr ''error''),
                   (''error'', JStr ''connection reset'')]"
    by (simp add: demo_defs endpoint_stats_def endpoint_try_def)
  from dashboard_isolates_endpoints[OF a] a b l t show ?thesis
    by simp
qed

text \<open>
  The claim as stated fails for a status from 201 to 299. The beacons endpoint answers
  201 with a list of two items; its entry is not count \<^verbatim>\<open>2\<close>, status \<^verbatim>\<open>available\<close>, but
  count \<^verbatim>\<open>0\<close>, status \<^verbatim>\<open>unavailable\<close>, error code \<^verbatim>\<open>201\<close>. The session here has no shared
  client yet; the handler constructs it at address 1.
\<close>

theorem dashboard_201_counterexample:
  "client_get demo
     [demo_login_client ''https://cs.example'' True,
      demo_shared_client ''https://cs.example'' ''abc123'' False] 1 ''/api/v1/beacons'' =
     Inr (demo_response 201 ''[{}, {}]'' (Inr (JList [JObj [], JObj []]))) \<and>
   is_success (demo_response 201 ''[{}, {}]'' (Inr (JList [JObj [], JObj []]))) \<and>
   dashboard_stats_resource demo
     (demo_session ''https://cs.example'' (JStr ''abc123'') None,
      [demo_login_client ''https://cs.example'' True]) =
     (JObj [(''dashboard'', JObj [(''timestamp'', JStr ''real-time''),
                                  (''status'', JStr ''operational'')]),
            (''beacons'', JObj [(''count'', JStr ''0''), (''status'', JStr ''unavailable''),
                                (''error_code'', JStr ''201'')]),
            (''listeners'', JObj [(''count'', JStr ''3''), (''status'', JStr ''available'')]),
            (''tasks'', JObj [(''count'', JStr ''0''), (''status'', JStr ''error''),
                              (''error'', JStr ''connection reset'')])],
      demo_session ''https://cs.example'' (JStr ''abc123'') (Some 1),
      [demo_login_client ''https://cs.example'' True,
       demo_shared_client ''https://cs.example'' ''abc123'' False]) \<and>
   JObj [(''count'', JStr ''0''), (''status'', JStr ''unavailable''),
         (''error_code'', JStr ''201'')] \<noteq>
   JObj [(''count'', JStr ''2''), (''status'', JStr ''available'')]"
  by (simp add: demo_defs handler_defs str_int_def str_nat.simps digit_def)

text \<open>
  Claim C5, as the code has it. On an authenticated session whose local-address
  request returned a response, the server-info handler returns the full document
  without \<^verbatim>\<open>system_information\<close> whenever the system-information request is answered
  with a status other than 200, and with that field when the status is 200; when the
  system-information request raises, the exception is caught at the handler boundary
  and the handler returns the error envelope. The document built before the second
  request has exactly three fields under \<^verbatim>\<open>cobalt_strike\<close>.
\<close>

theorem server_info_enrichment:
  assumes "get_authenticated_client env st = (Inr c, self, h)"
    and "client_get env h c ''/api/v1/config/localip'' = Inr localip_response"
  shows "server_info_resource env st =
          (case client_get env h c ''/api/v1/config/systeminformation'' of
             Inl e \<Rightarrow> (exception_envelope e ''Error while fetching server information'', self, h)
           | Inr resp \<Rightarrow>
               if status_code resp = 200
               then (JObj (dict_set_nested ''cobalt_strike'' ''system_information''
                             (JStr (resp_text resp))
                             (server_info self (version_data localip_response))), self, h)
               else (JObj (server_info self (version_data localip_response)), self, h))
       \<and> dict_get (server_info self (version_data localip_response)) ''cobalt_strike'' =
           JObj [(''version'', version_data localip_response),
                 (''api_base_url'', JStr (base_url self)),
                 (''health_status'', JStr ''connected'')]"
  by (simp add: server_info_resource_def server_info_body_def assms dict_get_def
        server_info_def split: sum.split)

text \<open>The system-information endpoint answers 503.\<close>

theorem server_info_enrichment_witness:
  "get_authenticated_client demo
     (demo_session ''https://busy.example'' (JStr ''abc123'') (Some 1),
      [demo_login_client ''https://busy.example'' True,
       demo_shared_client ''https://busy.example'' ''abc123'' False]) =
     (Inr 1,
      demo_session ''https://busy.example'' (JStr ''abc123'') (Some 1),
      [demo_login_client ''https://busy.example'' True,
       demo_shared_client ''https://busy.example'' ''abc123'' False]) \<and>
   client_get demo
     [demo_login_client ''https://busy.example'' True,
      demo_shared_client ''https://busy.example'' ''abc123'' False] 1
     ''/api/v1/config/systeminformation'' =
     Inr (demo_response 503 ''unavailable'' (Inl ''not JSON'')) \<and>
   server_info_resource demo
     (demo_session ''https://busy.example'' (JStr ''abc123'') (Some 1),
      [demo_login_client ''https://busy.example'' True,
       demo_shared_client ''https://busy.example'' ''abc123'' False]) =
     (JObj (server_info (demo_session ''https://busy.example'' (JStr ''abc123'') (Some 1))
              (JObj [(''version'', JStr ''available''), (''api_status'', JStr ''operational''),
                     (''local_ip'', JStr ''10.0.0.5'')])),
      demo_session ''https://busy.example'' (JStr ''abc123'') (Some 1),
      [demo_login_client ''https://busy.example'' True,
       demo_shared_client ''https://busy.example'' ''abc123'' False])"
proof -
  let ?self = "demo_session ''https://busy.example'' (JStr ''abc123'') (Some 1)"
  let ?h = "[demo_login_client ''https://busy.example'' True,
             demo_shared_client ''https://busy.example'' ''abc123'' False]"
  have a: "get_authenticated_client demo (?self, ?h) = (Inr 1, ?self, ?h)"
    by (simp add: demo_defs)
  have b: "client_get demo ?h 1 ''/api/v1/config/localip'' =
             Inr (demo_response 200 ''10.0.0.5'' (Inl ''not JSON''))"
    by (simp add: demo_defs)
  have s: "client_get demo ?h 1 ''/api/v1/config/systeminformation'' =
             Inr (demo_response 503 ''unavailable'' (Inl ''not JSON''))"
    by (simp add: demo_defs)
  have v: "version_data (demo_response 200 ''10.0.0.5'' (Inl ''not JSON'')) =
             JObj [(''version'', JStr ''available''), (''api_status'', JStr ''operational''),
                   (''local_ip'', JStr ''10.0.0.5'')]"
    by (simp add: version_data_def demo_response_def)
  from server_info_enrichment[OF a b] a s v show ?thesis
    by (simp add: demo_response_def)
qed

text \<open>
  The claim as stated fails when the system-information request raises: the handler
  returns the error envelope, not the server information.
\<close>

theorem server_info_raise_counterexample:
  "client_get demo
     [demo_login_client ''https://cs.example'' True,
      demo_shared_client ''https://cs.example'' ''abc123'' False] 1
     ''/api/v1/config/localip'' =
     Inr (demo_response 200 ''10.0.0.5'' (Inl ''not JSON'')) \<and>
   client_get demo
     [demo_login_client ''https://cs.example'' True,
      demo_shared_client ''https://cs.example'' ''abc123'' False] 1
     ''/api/v1/config/systeminformation'' = Inl (HTTPError ''read timeout'') \<and>
   server_info_resource demo
     (demo_session ''https://cs.example'' (JStr ''abc123'') (Some 1),
      [demo_login_client ''https://cs.example'' True,
       demo_shared_client ''https://cs.example'' ''abc123'' False]) =
     (JObj [(''error'', JStr ''Exception occurred''),
            (''exception'', JStr ''read timeout''),
            (''message'', JStr ''Error while fetching server information'')],
      demo_session ''https://cs.example'' (JStr ''abc123'') (Some 1),
      [demo_login_client ''https://cs.example'' True,
       demo_shared_client ''https://cs.example'' ''abc123'' False])"
  by (simp add: demo_defs handler_defs)




end
